theory Spec2Isabelle
  imports Complex_Main "HOL-Library.AList" "HOL-Library.Sublist"
begin

section \<open>Data model\<close>

text \<open>
  The upstream objects of \<^verbatim>\<open>stripeService.ts\<close>. Every list endpoint returns objects
  with an identifier and a creation time (Unix seconds); charges, refunds, disputes and
  payment intents carry an amount in integer minor units. A metadata object may be
  absent (\<^verbatim>\<open>charge.metadata?.customer_ip\<close>), hence the option; its values are strings.
\<close>

record StripeObject =
  obj_id :: string
  created :: int

record Amounted = StripeObject +
  amount :: int

record WithMetadata = Amounted +
  metadata :: "(string \<rightharpoonup> string) option"

type_synonym Refund = Amounted
type_synonym Dispute = Amounted
type_synonym PaymentIntent = WithMetadata

text \<open>
  \<^verbatim>\<open>charge.payment_intent\<close> is \<^verbatim>\<open>string | PaymentIntent | null\<close>: the identifier
  unless the caller expanded the reference.
\<close>

datatype pi_ref = PI_null | PI_id string | PI_object PaymentIntent

record Charge = WithMetadata +
  payment_intent :: pi_ref

record Event = StripeObject +
  event_type :: string

text \<open>
  A calendar date \<^verbatim>\<open>'YYYY-MM-DD'\<close> is represented by its day number (days since
  1970-01-01); \<^verbatim>\<open>add(1, 'day')\<close> is \<open>+ 1\<close> and \<^verbatim>\<open>isSameOrBefore(_, 'day')\<close> is \<open>\<le>\<close>.
  The two conversions that \<^verbatim>\<open>moment-timezone\<close> supplies for a zone are the fields of
  a \<open>timezone\<close>:
  \<^item> \<open>to_local_date z t\<close> is \<^verbatim>\<open>moment.unix(t).tz(z).format('YYYY-MM-DD')\<close>,
  \<^item> \<open>start_of_date z d\<close> is \<^verbatim>\<open>moment.tz(d, z).unix()\<close>.
\<close>

record timezone =
  to_local_date :: "int \<Rightarrow> int"
  start_of_date :: "int \<Rightarrow> int"


text \<open>
  \<^verbatim>\<open>TransactionData\<close>, with the fields that \<^verbatim>\<open>groupTransactionsByDate\<close> initialises.
  JavaScript numbers are modelled exactly: counts as naturals, amounts as rationals.
\<close>

record TransactionData =
  date :: int
  charges_count :: nat
  charges_amount :: rat
  refunds_count :: nat
  refunds_amount :: rat
  chargebacks_count :: nat
  chargebacks_amount :: rat
  declines_count :: nat
  aprvl_pct :: rat
  totals_count :: nat
  totals_amount :: rat
  account_id :: string

section \<open>Daily aggregation: \<^verbatim>\<open>groupTransactionsByDate\<close>\<close>













section \<open>The upstream client and the paginated collectors\<close>

text \<open>
  A thrown JavaScript \<^verbatim>\<open>Error\<close> with its message. A call that can throw returns a sum,
  \<open>Inl\<close> the error.
\<close>

datatype error = Error string

text \<open>
  The parameters of a list call: \<^verbatim>\<open>{ limit, created: { gte, lte }, starting_after }\<close>, the
  last two optional. A page of results is a \<^verbatim>\<open>Stripe.ApiList\<close>.
\<close>

record ListParams =
  limit :: nat
  created_filter :: "(int \<times> int) option"
  starting_after :: "string option"

record 'a ApiList =
  data :: "'a list"
  has_more :: bool

record Account =
  account_ident :: string
  business_type :: "string option"
  country :: "string option"
  charges_enabled :: "bool option"
  payouts_enabled :: "bool option"
  email :: "string option"
  account_type :: "string option"

text \<open>
  The Stripe client (\<^verbatim>\<open>stripeInstance\<close>) is outside the repository. It is a parameter of
  the model: a deterministic machine with a state of any type \<open>'st\<close>, so that what it
  answers may depend on every call made before. Each endpoint takes the parameters, the
  connected account (\<^verbatim>\<open>{ stripeAccount }\<close>) and the state, and returns a page or throws,
  with the next state. A call is taken to return; constructing the client
  (\<^verbatim>\<open>new Stripe(key)\<close>) is taken not to throw.
\<close>

record 'st Stripe =
  charges_list :: "ListParams \<Rightarrow> string \<Rightarrow> 'st \<Rightarrow> (error + Charge ApiList) \<times> 'st"
  refunds_list :: "ListParams \<Rightarrow> string \<Rightarrow> 'st \<Rightarrow> (error + Refund ApiList) \<times> 'st"
  disputes_list :: "ListParams \<Rightarrow> string \<Rightarrow> 'st \<Rightarrow> (error + Dispute ApiList) \<times> 'st"
  events_list :: "ListParams \<Rightarrow> string \<Rightarrow> 'st \<Rightarrow> (error + Event ApiList) \<times> 'st"
  accounts_retrieve :: "string \<Rightarrow> 'st \<Rightarrow> (error + Account) \<times> 'st"

text \<open>
  Two JavaScript idioms of the loops: \<^verbatim>\<open>xs[xs.length - 1]\<close>, which is \<^verbatim>\<open>undefined\<close> on
  an empty array, and \<^verbatim>\<open>s || null\<close> on a string that may be undefined, which is
  \<^verbatim>\<open>null\<close> for the empty string too. The test \<^verbatim>\<open>if (startingAfter)\<close> is the same
  truthiness.
\<close>

definition last_elem :: "'a list \<Rightarrow> 'a option" where
  "last_elem xs = (if xs = [] then None else Some (last xs))"

definition or_null :: "string option \<Rightarrow> string option" where
  "or_null s = (case s of None \<Rightarrow> None | Some v \<Rightarrow> if v = [] then None else Some v)"

text \<open>
  The loop \<^verbatim>\<open>while (hasMore)\<close> of \<^verbatim>\<open>getCharges\<close>. \<^verbatim>\<open>hasMore\<close> starts true, so the body
  runs at least once; the function is entered at the head of the body, with the list
  collected so far and the cursor. A loop that never leaves has no value (\<open>None\<close>).
\<close>

partial_function (option) getCharges_loop ::
  "'st Stripe \<Rightarrow> string \<Rightarrow> int \<Rightarrow> int \<Rightarrow> Charge list \<Rightarrow> string option \<Rightarrow> 'st \<Rightarrow>
   (Charge list \<times> 'st) option" where
  "getCharges_loop stripeInstance connectedAccountId startTimestamp endTimestamp
     charges startingAfter st =
     (case charges_list stripeInstance
             \<lparr>limit = 100, created_filter = Some (startTimestamp, endTimestamp),
              starting_after = or_null startingAfter\<rparr>
             connectedAccountId st of
        (Inl err, st') \<Rightarrow> Some (charges, st')
      | (Inr response, st') \<Rightarrow>
          (if has_more response
           then getCharges_loop stripeInstance connectedAccountId startTimestamp endTimestamp
                  (charges @ data response)
                  (or_null (map_option obj_id (last_elem (data response)))) st'
           else Some (charges @ data response, st')))"

text \<open>
  \<^verbatim>\<open>getCharges\<close>: the loop, then, when nothing was collected, one diagnostic call
  without a date filter whose result is only logged.
\<close>

definition getCharges ::
  "'st Stripe \<Rightarrow> string \<Rightarrow> int \<Rightarrow> int \<Rightarrow> 'st \<Rightarrow> (Charge list \<times> 'st) option" where
  "getCharges stripeInstance connectedAccountId startTimestamp endTimestamp st =
     (case getCharges_loop stripeInstance connectedAccountId startTimestamp endTimestamp [] None st of
        None \<Rightarrow> None
      | Some (charges, st1) \<Rightarrow>
          (if length charges = 0
           then (case charges_list stripeInstance
                        \<lparr>limit = 5, created_filter = None, starting_after = None\<rparr>
                        connectedAccountId st1 of
                   (testResponse, st2) \<Rightarrow> Some (charges, st2))
           else Some (charges, st1)))"





text \<open>\<^verbatim>\<open>getDeclines\<close> lists charges again.\<close>

partial_function (option) getDeclines_loop ::
  "'st Stripe \<Rightarrow> string \<Rightarrow> int \<Rightarrow> int \<Rightarrow> Charge list \<Rightarrow> string option \<Rightarrow> 'st \<Rightarrow>
   (Charge list \<times> 'st) option" where
  "getDeclines_loop stripeInstance connectedAccountId startTimestamp endTimestamp
     declines startingAfter st =
     (case charges_list stripeInstance
             \<lparr>limit = 100, created_filter = Some (startTimestamp, endTimestamp),
              starting_after = or_null startingAfter\<rparr>
             connectedAccountId st of
        (Inl err, st') \<Rightarrow> Some (declines, st')
      | (Inr response, st') \<Rightarrow>
          (if has_more response
           then getDeclines_loop stripeInstance connectedAccountId startTimestamp endTimestamp
                  (declines @ data response)
                  (or_null (map_option obj_id (last_elem (data response)))) st'
           else Some (declines @ data response, st')))"

definition getDeclines ::
  "'st Stripe \<Rightarrow> string \<Rightarrow> int \<Rightarrow> int \<Rightarrow> 'st \<Rightarrow> (Charge list \<times> 'st) option" where
  "getDeclines stripeInstance connectedAccountId startTimestamp endTimestamp st =
     getDeclines_loop stripeInstance connectedAccountId startTimestamp endTimestamp [] None st"

text \<open>
  \<^verbatim>\<open>getEvents\<close> keeps the payment-related events of each page (\<^verbatim>\<open>startsWith\<close> is
  \<open>prefix\<close>); the cursor is taken from the page as it came.
\<close>

definition paymentRelated :: "Event \<Rightarrow> bool" where
  "paymentRelated event \<longleftrightarrow>
     prefix ''charge.'' (event_type event) \<or>
     prefix ''payment_intent.'' (event_type event) \<or>
     prefix ''refund.'' (event_type event) \<or>
     prefix ''dispute.'' (event_type event) \<or>
     prefix ''balance.'' (event_type event)"

partial_function (option) getEvents_loop ::
  "'st Stripe \<Rightarrow> string \<Rightarrow> int \<Rightarrow> int \<Rightarrow> Event list \<Rightarrow> string option \<Rightarrow> 'st \<Rightarrow>
   (Event list \<times> 'st) option" where
  "getEvents_loop stripeInstance connectedAccountId startTimestamp endTimestamp
     events startingAfter st =
     (case events_list stripeInstance
             \<lparr>limit = 100, created_filter = Some (startTimestamp, endTimestamp),
              starting_after = or_null startingAfter\<rparr>
             connectedAccountId st of
        (Inl err, st') \<Rightarrow> Some (events, st')
      | (Inr response, st') \<Rightarrow>
          (if has_more response
           then getEvents_loop stripeInstance connectedAccountId startTimestamp endTimestamp
                  (events @ filter paymentRelated (data response))
                  (or_null (map_option obj_id (last_elem (data response)))) st'
           else Some (events @ filter paymentRelated (data response), st')))"

definition getEvents ::
  "'st Stripe \<Rightarrow> string \<Rightarrow> int \<Rightarrow> int \<Rightarrow> 'st \<Rightarrow> (Event list \<times> 'st) option" where
  "getEvents stripeInstance connectedAccountId startTimestamp endTimestamp st =
     getEvents_loop stripeInstance connectedAccountId startTimestamp endTimestamp [] None st"

section \<open>Per-account fetch and the multi-account orchestrator\<close>



definition or_default :: "string option \<Rightarrow> string \<Rightarrow> string" where
  "or_default s d = (case s of None \<Rightarrow> d | Some v \<Rightarrow> if v = [] then d else v)"






section \<open>The report routes: request validation and row normalisation\<close>

text \<open>
  The request as the handlers of \<^verbatim>\<open>/multi/:accountIds\<close> and \<^verbatim>\<open>/detailed/:accountIds\<close> read
  it: the route parameter, the query parameters (absent ones are \<open>None\<close>; the defaults
  of the destructuring apply to absent ones only) and the authenticated user.
\<close>

record ReportRequest =
  param_accountIds :: string
  query_start_date :: "string option"
  query_end_date :: "string option"
  query_timezone :: "string option"
  query_period :: "string option"
  user_isMaster :: bool
  user_stripeId :: string

text \<open>
  What the handlers take from \<^verbatim>\<open>moment\<close>: \<open>moment_parse m s\<close> is the time value of
  \<^verbatim>\<open>moment(s)\<close> when \<^verbatim>\<open>moment(s).isValid()\<close>, and \<open>None\<close> otherwise; \<open>moment_ago m n\<close> is
  \<^verbatim>\<open>moment().subtract(n, 'days').format('YYYY-MM-DD')\<close>, with \<open>n = 0\<close> for today.
\<close>

record Moment =
  moment_parse :: "string \<Rightarrow> int option"
  moment_ago :: "nat \<Rightarrow> string"

text \<open>
  A handler either answers at once (\<^verbatim>\<open>return res.status(c).json({ error, message })\<close>)
  or reaches its first call of the service, with the account list, the two dates and
  the timezone. Nothing in a handler before that call touches the upstream (the
  authentication middleware runs before the handler and is not part of it).
\<close>

datatype route_step =
  Respond nat string string
| Call_service "string list" string string string

text \<open>\<^verbatim>\<open>s.split(',')\<close>, which never returns an empty array, and \<^verbatim>\<open>s.trim()\<close>.\<close>

fun split_comma :: "string \<Rightarrow> string list" where
  "split_comma [] = [ [] ]"
| "split_comma (c # cs) =
     (if c = CHR '','' then [] # split_comma cs
      else (case split_comma cs of
              [] \<Rightarrow> [ [c] ]
            | w # ws \<Rightarrow> (c # w) # ws))"

definition js_whitespace :: "char \<Rightarrow> bool" where
  "js_whitespace c \<longleftrightarrow>
     c \<in> set [CHR '' '', CHR 0x09, CHR 0x0A, CHR 0x0B, CHR 0x0C, CHR 0x0D]"

definition trim :: "string \<Rightarrow> string" where
  "trim s = rev (dropWhile js_whitespace (rev (dropWhile js_whitespace s)))"

definition multi_route :: "Moment \<Rightarrow> ReportRequest \<Rightarrow> route_step" where
  "multi_route m req =
     (let timezone = (case query_timezone req of None \<Rightarrow> ''UTC'' | Some z \<Rightarrow> z);
          period = (case query_period req of None \<Rightarrow> ''custom'' | Some p \<Rightarrow> p) in
      case (if period = ''daily'' then Inr (moment_ago m 1, moment_ago m 0)
            else if period = ''weekly'' then Inr (moment_ago m 7, moment_ago m 0)
            else if period = ''monthly'' then Inr (moment_ago m 30, moment_ago m 0)
            else if period = ''custom'' then
              (case (query_start_date req, query_end_date req) of
                 (Some start_date, Some end_date) \<Rightarrow>
                   if start_date = [] \<or> end_date = []
                   then Inl (Respond 400 ''Bad Request''
                               ''start_date and end_date are required for custom period'')
                   else Inr (start_date, end_date)
               | _ \<Rightarrow> Inl (Respond 400 ''Bad Request''
                               ''start_date and end_date are required for custom period''))
            else Inl (Respond 400 ''Bad Request''
                        ''Invalid period. Use: daily, weekly, monthly, or custom'')) of
        Inl response \<Rightarrow> response
      | Inr (startDate, endDate) \<Rightarrow>
          (case (moment_parse m startDate, moment_parse m endDate) of
             (Some startMoment, Some endMoment) \<Rightarrow>
               if startMoment > endMoment
               then Respond 400 ''Bad Request'' ''start_date cannot be after end_date''
               else
                 (let accountIdList =
                        (if user_isMaster req
                         then map trim (split_comma (param_accountIds req))
                         else [user_stripeId req]) in
                  if length accountIdList = 0
                  then Respond 400 ''Bad Request'' ''At least one account ID is required''
                  else Call_service accountIdList startDate endDate timezone)
           | _ \<Rightarrow> Respond 400 ''Bad Request'' ''Invalid date format. Use YYYY-MM-DD''))"

text \<open>
  The handler of \<^verbatim>\<open>/detailed/:accountIds\<close> repeats the validation; its first service call
  is \<^verbatim>\<open>getComplianceTransactions\<close> for the first account of the list.
\<close>

definition detailed_route :: "Moment \<Rightarrow> ReportRequest \<Rightarrow> route_step" where
  "detailed_route m req =
     (let timezone = (case query_timezone req of None \<Rightarrow> ''UTC'' | Some z \<Rightarrow> z);
          period = (case query_period req of None \<Rightarrow> ''custom'' | Some p \<Rightarrow> p) in
      case (if period = ''daily'' then Inr (moment_ago m 1, moment_ago m 0)
            else if period = ''weekly'' then Inr (moment_ago m 7, moment_ago m 0)
            else if period = ''monthly'' then Inr (moment_ago m 30, moment_ago m 0)
            else if period = ''custom'' then
              (case (query_start_date req, query_end_date req) of
                 (Some start_date, Some end_date) \<Rightarrow>
                   if start_date = [] \<or> end_date = []
                   then Inl (Respond 400 ''Bad Request''
                               ''start_date and end_date are required for custom period'')
                   else Inr (start_date, end_date)
               | _ \<Rightarrow> Inl (Respond 400 ''Bad Request''
                               ''start_date and end_date are required for custom period''))
            else Inl (Respond 400 ''Bad Request''
                        ''Invalid period. Use: daily, weekly, monthly, or custom'')) of
        Inl response \<Rightarrow> response
      | Inr (startDate, endDate) \<Rightarrow>
          (case (moment_parse m startDate, moment_parse m endDate) of
             (Some startMoment, Some endMoment) \<Rightarrow>
               if startMoment > endMoment
               then Respond 400 ''Bad Request'' ''start_date cannot be after end_date''
               else
                 (let accountIdList =
                        (if user_isMaster req
                         then map trim (split_comma (param_accountIds req))
                         else [user_stripeId req]) in
                  if length accountIdList = 0
                  then Respond 400 ''Bad Request'' ''At least one account ID is required''
                  else Call_service accountIdList startDate endDate timezone)
           | _ \<Rightarrow> Respond 400 ''Bad Request'' ''Invalid date format. Use YYYY-MM-DD''))"

text \<open>
  The \<^verbatim>\<open>customer_ip\<close> field of a detail row. \<^verbatim>\<open>a || b\<close> on strings that may be
  undefined is \<open>js_or\<close>; \<^verbatim>\<open>obj.metadata?.key\<close> is \<open>metadata_field\<close>; and
  \<^verbatim>\<open>charge.payment_intent?.metadata?.key\<close> is undefined unless the reference is an
  expanded object (a string has no \<^verbatim>\<open>metadata\<close> property).
\<close>

definition js_or :: "string option \<Rightarrow> string option \<Rightarrow> string option" where
  "js_or a b = (case a of None \<Rightarrow> b | Some v \<Rightarrow> if v = [] then b else Some v)"

definition metadata_field :: "'a WithMetadata_scheme \<Rightarrow> string \<Rightarrow> string option" where
  "metadata_field obj key = (case metadata obj of None \<Rightarrow> None | Some md \<Rightarrow> md key)"

definition payment_intent_metadata_field :: "Charge \<Rightarrow> string \<Rightarrow> string option" where
  "payment_intent_metadata_field charge key =
     (case payment_intent charge of
        PI_null \<Rightarrow> None
      | PI_id ident \<Rightarrow> None
      | PI_object intent \<Rightarrow> metadata_field intent key)"

definition detailedCharges_customer_ip :: "Charge \<Rightarrow> string" where
  "detailedCharges_customer_ip charge =
     or_default
       (js_or (js_or (js_or (js_or (js_or
          (metadata_field charge ''customer_ip'')
          (metadata_field charge ''ip_address''))
          (metadata_field charge ''client_ip''))
          (payment_intent_metadata_field charge ''customer_ip''))
          (payment_intent_metadata_field charge ''ip_address''))
          (payment_intent_metadata_field charge ''client_ip''))
       []"

definition detailedPaymentIntents_customer_ip :: "PaymentIntent \<Rightarrow> string" where
  "detailedPaymentIntents_customer_ip intent =
     or_default
       (js_or (js_or (js_or
          (metadata_field intent ''customer_ip'')
          (metadata_field intent ''ip_address''))
          (metadata_field intent ''client_ip''))
          (metadata_field intent ''request_ip''))
       []"

section \<open>Notions used to state the properties of the aggregation\<close>





text \<open>Sample records for the concrete instances below.\<close>

definition charge_at :: "string \<Rightarrow> int \<Rightarrow> int \<Rightarrow> Charge" where
  "charge_at i t a = \<lparr>obj_id = i, created = t, amount = a, metadata = None, payment_intent = PI_null\<rparr>"


section \<open>Reference notions and sample upstreams for the collectors\<close>

text \<open>
  The pages of the events endpoint walked as the collector contract describes it (a fixed
  page size of 100, the creation window, the last record's identifier as cursor, until
  the upstream reports no more pages or throws), with every record kept. \<open>getEvents\<close> is
  compared with it.
\<close>

partial_function (option) allEvents_loop ::
  "'st Stripe \<Rightarrow> string \<Rightarrow> int \<Rightarrow> int \<Rightarrow> Event list \<Rightarrow> string option \<Rightarrow> 'st \<Rightarrow>
   (Event list \<times> 'st) option" where
  "allEvents_loop stripeInstance connectedAccountId startTimestamp endTimestamp
     events startingAfter st =
     (case events_list stripeInstance
             \<lparr>limit = 100, created_filter = Some (startTimestamp, endTimestamp),
              starting_after = or_null startingAfter\<rparr>
             connectedAccountId st of
        (Inl err, st') \<Rightarrow> Some (events, st')
      | (Inr response, st') \<Rightarrow>
          (if has_more response
           then allEvents_loop stripeInstance connectedAccountId startTimestamp endTimestamp
                  (events @ data response)
                  (or_null (map_option obj_id (last_elem (data response)))) st'
           else Some (events @ data response, st')))"

text \<open>
  A scripted upstream, as a test double: its state is the list of responses still to be
  given and the log of the parameters received. Charges and events are scripted; the
  other endpoints throw.
\<close>

definition scripted_charges ::
  "((error + Charge ApiList) list \<times> ListParams list) Stripe" where
  "scripted_charges =
     \<lparr>charges_list = (\<lambda>params acct (rs, calls).
         case rs of
           [] \<Rightarrow> (Inl (Error ''script exhausted''), ([], calls @ [params]))
         | r # rs' \<Rightarrow> (r, (rs', calls @ [params]))),
      refunds_list = (\<lambda>params acct st. (Inl (Error ''not scripted''), st)),
      disputes_list = (\<lambda>params acct st. (Inl (Error ''not scripted''), st)),
      events_list = (\<lambda>params acct st. (Inl (Error ''not scripted''), st)),
      accounts_retrieve = (\<lambda>acct st. (Inl (Error ''not scripted''), st))\<rparr>"

definition scripted_events ::
  "((error + Event ApiList) list \<times> ListParams list) Stripe" where
  "scripted_events =
     \<lparr>charges_list = (\<lambda>params acct st. (Inl (Error ''not scripted''), st)),
      refunds_list = (\<lambda>params acct st. (Inl (Error ''not scripted''), st)),
      disputes_list = (\<lambda>params acct st. (Inl (Error ''not scripted''), st)),
      events_list = (\<lambda>params acct (rs, calls).
         case rs of
           [] \<Rightarrow> (Inl (Error ''script exhausted''), ([], calls @ [params]))
         | r # rs' \<Rightarrow> (r, (rs', calls @ [params]))),
      accounts_retrieve = (\<lambda>acct st. (Inl (Error ''not scripted''), st))\<rparr>"

text \<open>
  Two stateless upstreams: one answers every list call with an empty page and
  \<^verbatim>\<open>has_more = true\<close>, the other with an empty page and \<^verbatim>\<open>has_more = false\<close>.
\<close>

definition empty_page :: "bool \<Rightarrow> 'a ApiList" where
  "empty_page b = \<lparr>data = [], has_more = b\<rparr>"


definition event_at :: "string \<Rightarrow> int \<Rightarrow> string \<Rightarrow> Event" where
  "event_at i t ty = \<lparr>obj_id = i, created = t, event_type = ty\<rparr>"

definition page_params :: "int \<Rightarrow> int \<Rightarrow> string option \<Rightarrow> ListParams" where
  "page_params gte lte after =
     \<lparr>limit = 100, created_filter = Some (gte, lte), starting_after = after\<rparr>"





section \<open>Reference notions and samples for the routes\<close>

text \<open>The first candidate that is present and not empty, the empty string when there is none.\<close>

fun first_truthy :: "string option list \<Rightarrow> string" where
  "first_truthy [] = []"
| "first_truthy (None # cs) = first_truthy cs"
| "first_truthy (Some v # cs) = (if v = [] then first_truthy cs else v)"

text \<open>The conditions under which a request is refused, read off the request.\<close>

definition custom_period :: "ReportRequest \<Rightarrow> bool" where
  "custom_period req \<longleftrightarrow> query_period req = None \<or> query_period req = Some ''custom''"

definition unknown_period :: "ReportRequest \<Rightarrow> bool" where
  "unknown_period req \<longleftrightarrow>
     (\<exists>p. query_period req = Some p \<and>
          p \<notin> set [''daily'', ''weekly'', ''monthly'', ''custom''])"

definition missing_dates :: "ReportRequest \<Rightarrow> bool" where
  "missing_dates req \<longleftrightarrow>
     query_start_date req = None \<or> query_start_date req = Some [] \<or>
     query_end_date req = None \<or> query_end_date req = Some []"

definition unparseable_dates :: "Moment \<Rightarrow> ReportRequest \<Rightarrow> bool" where
  "unparseable_dates m req \<longleftrightarrow>
     (\<exists>s e. query_start_date req = Some s \<and> query_end_date req = Some e \<and>
            (moment_parse m s = None \<or> moment_parse m e = None))"

definition inverted_range :: "Moment \<Rightarrow> ReportRequest \<Rightarrow> bool" where
  "inverted_range m req \<longleftrightarrow>
     (\<exists>s e a b. query_start_date req = Some s \<and> query_end_date req = Some e \<and>
                moment_parse m s = Some a \<and> moment_parse m e = Some b \<and> a > b)"

text \<open>A sample clock and parser, and a sample request.\<close>

definition sample_moment :: Moment where
  "sample_moment =
     \<lparr>moment_parse = (\<lambda>s. if s = ''2024-01-01'' then Some 1704067200000
                           else if s = ''2024-01-02'' then Some 1704153600000
                           else None),
      moment_ago = (\<lambda>n. if n = 0 then ''2024-01-02'' else ''2024-01-01'')\<rparr>"

definition sample_request :: "string option \<Rightarrow> string option \<Rightarrow> string option \<Rightarrow> ReportRequest" where
  "sample_request period start_date end_date =
     \<lparr>param_accountIds = ''acct_1, acct_2'',
      query_start_date = start_date, query_end_date = end_date,
      query_timezone = None, query_period = period,
      user_isMaster = True, user_stripeId = ''acct_1''\<rparr>"

definition sample_charge :: "(string \<rightharpoonup> string) option \<Rightarrow> pi_ref \<Rightarrow> Charge" where
  "sample_charge md intent =
     \<lparr>obj_id = ''ch_1'', created = 1704100000, amount = 12345, metadata = md,
      payment_intent = intent\<rparr>"

definition sample_payment_intent :: "(string \<rightharpoonup> string) option \<Rightarrow> PaymentIntent" where
  "sample_payment_intent md =
     \<lparr>obj_id = ''pi_1'', created = 1704100000, amount = 12345, metadata = md\<rparr>"

section \<open>Properties of the daily aggregation\<close>











































section \<open>Properties of the paginated collectors\<close>

lemma getCharges_loop_sound:
  assumes "getCharges_loop up a s e cs c st = Some y"
  shows "getDeclines_loop up a s e cs c st = Some y"
proof (rule getCharges_loop.raw_induct[where P = "\<lambda>up a s e cs c st y. getDeclines_loop up a s e cs c st = Some y",
      OF _ assms], goal_cases)
  case (1 f up a s e cs c st y)
  from 1(2) show ?case
    by (subst getDeclines_loop.simps) (auto split: prod.splits sum.splits if_splits intro: 1(1))
qed

lemma getDeclines_loop_sound:
  assumes "getDeclines_loop up a s e cs c st = Some y"
  shows "getCharges_loop up a s e cs c st = Some y"
proof (rule getDeclines_loop.raw_induct[where P = "\<lambda>up a s e cs c st y. getCharges_loop up a s e cs c st = Some y",
      OF _ assms], goal_cases)
  case (1 f up a s e cs c st y)
  from 1(2) show ?case
    by (subst getCharges_loop.simps) (auto split: prod.splits sum.splits if_splits intro: 1(1))
qed

lemma declines_loop_eq_charges_loop:
  "getDeclines_loop up a s e cs c st = getCharges_loop up a s e cs c st"
proof (cases "getCharges_loop up a s e cs c st")
  case None
  then show ?thesis using getDeclines_loop_sound[of up a s e cs c st]
    by (cases "getDeclines_loop up a s e cs c st") auto
next
  case (Some y)
  then show ?thesis using getCharges_loop_sound by simp
qed

text \<open>
  Claim C8. For every upstream, account and window, \<open>getDeclines\<close> returns the record
  sequence that \<open>getCharges\<close> returns from the same upstream state (and returns exactly
  when it does): both walk the charges endpoint with the same parameters and keep every
  record.
\<close>

theorem C8_declines_duplicate_charges:
  "map_option fst (getDeclines stripeInstance connectedAccountId startTimestamp endTimestamp st) =
   map_option fst (getCharges stripeInstance connectedAccountId startTimestamp endTimestamp st)"
  by (simp add: getDeclines_def getCharges_def declines_loop_eq_charges_loop
      split: option.splits prod.splits)







lemma scripted_charges_more:
  "getCharges_loop scripted_charges a s e cs c (Inr \<lparr>data = p, has_more = True\<rparr> # rs, calls) =
   getCharges_loop scripted_charges a s e (cs @ p) (or_null (map_option obj_id (last_elem p)))
     (rs, calls @ [page_params s e (or_null c)])"
  by (subst getCharges_loop.simps) (simp add: scripted_charges_def page_params_def)

lemma scripted_charges_last:
  "getCharges_loop scripted_charges a s e cs c (Inr \<lparr>data = p, has_more = False\<rparr> # rs, calls) =
   Some (cs @ p, (rs, calls @ [page_params s e (or_null c)]))"
  by (subst getCharges_loop.simps) (simp add: scripted_charges_def page_params_def)

lemma cursor_of_page:
  "p \<noteq> [] \<Longrightarrow> obj_id (last p) \<noteq> [] \<Longrightarrow>
   or_null (map_option obj_id (last_elem p)) = Some (obj_id (last p))"
  by (simp add: last_elem_def or_null_def)

lemma getCharges_nonempty:
  "getCharges_loop up a s e [] None st = Some (cs, st') \<Longrightarrow> cs \<noteq> [] \<Longrightarrow>
   getCharges up a s e st = Some (cs, st')"
  by (simp add: getCharges_def)

text \<open>
  Claim C6. Against an upstream that answers two full pages of 100 records and then a
  page of 37 with \<^verbatim>\<open>has_more = false\<close>, \<open>getCharges\<close> asks for pages of 100 with the
  last record's identifier as cursor, returns the 237 records in upstream order, and makes
  no call after the third: the log holds three requests and the rest of the script is
  untouched.
\<close>

theorem C6_pagination_exhaustion:
  assumes "length p1 = 100" "length p2 = 100" "length p3 = 37"
    and "obj_id (last p1) \<noteq> []" "obj_id (last p2) \<noteq> []"
  shows "getCharges scripted_charges acct s e
           ([Inr \<lparr>data = p1, has_more = True\<rparr>, Inr \<lparr>data = p2, has_more = True\<rparr>,
             Inr \<lparr>data = p3, has_more = False\<rparr>] @ rest, [])
         = Some (p1 @ p2 @ p3,
                 (rest, [page_params s e None,
                         page_params s e (Some (obj_id (last p1))),
                         page_params s e (Some (obj_id (last p2)))])) \<and>
         length (p1 @ p2 @ p3) = 237"
proof -
  from assms have ne: "p1 \<noteq> []" "p2 \<noteq> []" "p3 \<noteq> []" by auto
  have n: "or_null None = None" by (simp add: or_null_def)
  have s: "or_null (Some (obj_id (last p1))) = Some (obj_id (last p1))"
    "or_null (Some (obj_id (last p2))) = Some (obj_id (last p2))"
    using assms by (simp_all add: or_null_def)
  have loop: "getCharges_loop scripted_charges acct s e [] None
           ([Inr \<lparr>data = p1, has_more = True\<rparr>, Inr \<lparr>data = p2, has_more = True\<rparr>,
             Inr \<lparr>data = p3, has_more = False\<rparr>] @ rest, [])
         = Some (p1 @ p2 @ p3,
                 (rest, [page_params s e None,
                         page_params s e (Some (obj_id (last p1))),
                         page_params s e (Some (obj_id (last p2)))]))"
    using ne assms(4,5)
    by (simp add: scripted_charges_more scripted_charges_last cursor_of_page n s)
  have len: "length (p1 @ p2 @ p3) = 237" using assms(1-3) by simp
  from ne have "p1 @ p2 @ p3 \<noteq> []" by simp
  from getCharges_nonempty[OF loop this] len show ?thesis by blast
qed

theorem C6_pagination_exhaustion_witness:
  "length (replicate 100 (charge_at ''ch_a'' 100 500)) = 100 \<and>
   length (replicate 100 (charge_at ''ch_b'' 200 500)) = 100 \<and>
   length (replicate 37 (charge_at ''ch_c'' 300 500)) = 37 \<and>
   obj_id (last (replicate 100 (charge_at ''ch_a'' 100 500))) \<noteq> [] \<and>
   obj_id (last (replicate 100 (charge_at ''ch_b'' 200 500))) \<noteq> [] \<and>
   getCharges scripted_charges ''acct_1'' 0 86400
           ([Inr \<lparr>data = replicate 100 (charge_at ''ch_a'' 100 500), has_more = True\<rparr>,
             Inr \<lparr>data = replicate 100 (charge_at ''ch_b'' 200 500), has_more = True\<rparr>,
             Inr \<lparr>data = replicate 37 (charge_at ''ch_c'' 300 500), has_more = False\<rparr>] @
            [Inr (empty_page False)], [])
         = Some (replicate 100 (charge_at ''ch_a'' 100 500) @
                 replicate 100 (charge_at ''ch_b'' 200 500) @
                 replicate 37 (charge_at ''ch_c'' 300 500),
                 ([Inr (empty_page False)],
                  [page_params 0 86400 None, page_params 0 86400 (Some ''ch_a''),
                   page_params 0 86400 (Some ''ch_b'')])) \<and>
   length (replicate 100 (charge_at ''ch_a'' 100 500) @
           replicate 100 (charge_at ''ch_b'' 200 500) @
           replicate 37 (charge_at ''ch_c'' 300 500)) = 237"
proof -
  have l: "length (replicate 100 (charge_at ''ch_a'' 100 500)) = 100"
    "length (replicate 100 (charge_at ''ch_b'' 200 500)) = 100"
    "length (replicate 37 (charge_at ''ch_c'' 300 500)) = 37"
    by simp_all
  have a: "obj_id (last (replicate 100 (charge_at ''ch_a'' 100 500))) = ''ch_a''"
    and b: "obj_id (last (replicate 100 (charge_at ''ch_b'' 200 500))) = ''ch_b''"
    by (simp_all add: charge_at_def)
  have i: "obj_id (last (replicate 100 (charge_at ''ch_a'' 100 500))) \<noteq> []"
    "obj_id (last (replicate 100 (charge_at ''ch_b'' 200 500))) \<noteq> []"
    unfolding a b by simp_all
  from C6_pagination_exhaustion[OF l i, of "''acct_1''" 0 86400 "[Inr (empty_page False)]"] l i
  show ?thesis by (simp only: a b) simp
qed

lemma allEvents_loop_filtered:
  assumes "allEvents_loop up a s e acc c st = Some y"
  shows "getEvents_loop up a s e (filter paymentRelated acc) c st
         = Some (filter paymentRelated (fst y), snd y)"
proof (rule allEvents_loop.raw_induct[where P = "\<lambda>up a s e acc c st y.
      getEvents_loop up a s e (filter paymentRelated acc) c st
         = Some (filter paymentRelated (fst y), snd y)", OF _ assms], goal_cases)
  case (1 f up a s e acc c st y)
  from 1(2) show ?case
    by (subst getEvents_loop.simps)
       (auto split: prod.splits sum.splits if_splits dest: 1(1))
qed

lemma getEvents_loop_unfiltered:
  assumes "getEvents_loop up a s e evs c st = Some y"
  shows "\<forall>acc. evs = filter paymentRelated acc \<longrightarrow>
           (\<exists>xs. allEvents_loop up a s e acc c st = Some (xs, snd y) \<and>
                 fst y = filter paymentRelated xs)"
proof (rule getEvents_loop.raw_induct[where P = "\<lambda>up a s e evs c st y.
      \<forall>acc. evs = filter paymentRelated acc \<longrightarrow>
           (\<exists>xs. allEvents_loop up a s e acc c st = Some (xs, snd y) \<and>
                 fst y = filter paymentRelated xs)", OF _ assms], goal_cases)
  case (1 f up a s e evs c st y)
  show ?case
  proof (intro allI impI)
    fix acc assume acc: "evs = filter paymentRelated acc"
    let ?p = "\<lparr>limit = 100, created_filter = Some (s, e), starting_after = or_null c\<rparr>"
    show "\<exists>xs. allEvents_loop up a s e acc c st = Some (xs, snd y) \<and> fst y = filter paymentRelated xs"
    proof (cases "events_list up ?p a st")
      case (Pair r st')
      show ?thesis
      proof (cases r)
        case (Inl err)
        with Pair 1(2) acc show ?thesis
          by (subst allEvents_loop.simps) auto
      next
        case (Inr page)
        show ?thesis
        proof (cases "has_more page")
          case False
          with Pair Inr 1(2) acc show ?thesis
            by (subst allEvents_loop.simps) auto
        next
          case True
          with Pair Inr 1(2)
          have "f up a s e (evs @ filter paymentRelated (data page))
                  (or_null (map_option obj_id (last_elem (data page)))) st' = Some y"
            by simp
          from 1(1)[OF this, rule_format, of "acc @ data page"] acc
          obtain xs where "allEvents_loop up a s e (acc @ data page)
                  (or_null (map_option obj_id (last_elem (data page)))) st' = Some (xs, snd y)"
            and "fst y = filter paymentRelated xs"
            by auto
          with Pair Inr True show ?thesis
            by (subst allEvents_loop.simps) auto
        qed
      qed
    qed
  qed
qed

lemma getEvents_loop_eq:
  "getEvents_loop up a s e (filter paymentRelated acc) c st =
   map_option (\<lambda>(xs, st'). (filter paymentRelated xs, st')) (allEvents_loop up a s e acc c st)"
proof (cases "allEvents_loop up a s e acc c st")
  case (Some y)
  with allEvents_loop_filtered[OF Some] show ?thesis by (simp add: case_prod_beta)
next
  case None
  show ?thesis
  proof (cases "getEvents_loop up a s e (filter paymentRelated acc) c st")
    case (Some y)
    from getEvents_loop_unfiltered[OF Some] None show ?thesis by auto
  next
    case None': None
    with None show ?thesis by simp
  qed
qed

text \<open>
  Claim C10. \<open>getEvents\<close> returns the events of the unfiltered walk of the pages whose
  type starts with \<^verbatim>\<open>charge.\<close>, \<^verbatim>\<open>payment_intent.\<close>, \<^verbatim>\<open>refund.\<close>, \<^verbatim>\<open>dispute.\<close> or
  \<^verbatim>\<open>balance.\<close>, and only those; the other events are dropped. It makes the requests of the
  unfiltered walk and leaves the upstream in the same state, so the cursor is the last
  element of each page as it came, kept or not.
\<close>

theorem C10_events_filtered:
  "getEvents stripeInstance connectedAccountId startTimestamp endTimestamp st =
     map_option (\<lambda>(xs, st'). (filter paymentRelated xs, st'))
       (allEvents_loop stripeInstance connectedAccountId startTimestamp endTimestamp [] None st) \<and>
   (\<forall>events st'.
      getEvents stripeInstance connectedAccountId startTimestamp endTimestamp st = Some (events, st')
      \<longrightarrow> (\<forall>ev \<in> set events.
             prefix ''charge.'' (event_type ev) \<or> prefix ''payment_intent.'' (event_type ev) \<or>
             prefix ''refund.'' (event_type ev) \<or> prefix ''dispute.'' (event_type ev) \<or>
             prefix ''balance.'' (event_type ev)))"
proof -
  have eq: "getEvents stripeInstance connectedAccountId startTimestamp endTimestamp st =
     map_option (\<lambda>(xs, st'). (filter paymentRelated xs, st'))
       (allEvents_loop stripeInstance connectedAccountId startTimestamp endTimestamp [] None st)"
    using getEvents_loop_eq[of stripeInstance connectedAccountId startTimestamp endTimestamp "[]" None st]
    by (simp add: getEvents_def)
  then show ?thesis by (auto simp: paymentRelated_def)
qed

lemma scripted_events_more:
  "getEvents_loop scripted_events a s e evs c (Inr \<lparr>data = p, has_more = True\<rparr> # rs, calls) =
   getEvents_loop scripted_events a s e (evs @ filter paymentRelated p)
     (or_null (map_option obj_id (last_elem p))) (rs, calls @ [page_params s e (or_null c)])"
  by (subst getEvents_loop.simps) (simp add: scripted_events_def page_params_def)

lemma scripted_events_last:
  "getEvents_loop scripted_events a s e evs c (Inr \<lparr>data = p, has_more = False\<rparr> # rs, calls) =
   Some (evs @ filter paymentRelated p, (rs, calls @ [page_params s e (or_null c)]))"
  by (subst getEvents_loop.simps) (simp add: scripted_events_def page_params_def)

theorem C10_events_filtered_witness:
  "getEvents scripted_events ''acct_1'' 0 86400
     ([Inr \<lparr>data = [event_at ''evt_1'' 10 ''charge.succeeded'',
                     event_at ''evt_2'' 20 ''customer.created''], has_more = True\<rparr>,
       Inr \<lparr>data = [event_at ''evt_3'' 30 ''refund.created'',
                     event_at ''evt_4'' 40 ''account.updated''], has_more = False\<rparr>], [])
   = Some ([event_at ''evt_1'' 10 ''charge.succeeded'', event_at ''evt_3'' 30 ''refund.created''],
           ([], [page_params 0 86400 None, page_params 0 86400 (Some ''evt_2'')])) \<and>
   prefix ''refund.'' (event_type (event_at ''evt_3'' 30 ''refund.created'')) \<and>
   allEvents_loop scripted_events ''acct_1'' 0 86400 [] None
     ([Inr \<lparr>data = [event_at ''evt_1'' 10 ''charge.succeeded'',
                     event_at ''evt_2'' 20 ''customer.created''], has_more = True\<rparr>,
       Inr \<lparr>data = [event_at ''evt_3'' 30 ''refund.created'',
                     event_at ''evt_4'' 40 ''account.updated''], has_more = False\<rparr>], [])
   \<noteq> None"
proof -
  let ?st = "([Inr \<lparr>data = [event_at ''evt_1'' 10 ''charge.succeeded'',
                     event_at ''evt_2'' 20 ''customer.created''], has_more = True\<rparr>,
       Inr \<lparr>data = [event_at ''evt_3'' 30 ''refund.created'',
                     event_at ''evt_4'' 40 ''account.updated''], has_more = False\<rparr>], [])"
  have e: "getEvents scripted_events ''acct_1'' 0 86400 ?st
   = Some ([event_at ''evt_1'' 10 ''charge.succeeded'', event_at ''evt_3'' 30 ''refund.created''],
           ([], [page_params 0 86400 None, page_params 0 86400 (Some ''evt_2'')]))"
    by (simp add: getEvents_def scripted_events_more scripted_events_last paymentRelated_def
        event_at_def last_elem_def or_null_def)
  note inst = C10_events_filtered[of scripted_events "''acct_1''" 0 86400 ?st]
  from inst have eq: "getEvents scripted_events ''acct_1'' 0 86400 ?st =
      map_option (\<lambda>(xs, st'). (filter paymentRelated xs, st'))
        (allEvents_loop scripted_events ''acct_1'' 0 86400 [] None ?st)"
    by (rule conjunct1)
  have "allEvents_loop scripted_events ''acct_1'' 0 86400 [] None ?st \<noteq> None"
  proof
    assume "allEvents_loop scripted_events ''acct_1'' 0 86400 [] None ?st = None"
    with eq have "getEvents scripted_events ''acct_1'' 0 86400 ?st = None" by (simp only: option.map)
    with e show False by (simp only: option.distinct)
  qed
  moreover have "prefix ''refund.'' (event_type (event_at ''evt_3'' 30 ''refund.created''))"
    by (simp add: event_at_def)
  ultimately show ?thesis using e by blast
qed

section \<open>Properties of the multi-account orchestrator\<close>












section \<open>Properties of the routes\<close>

lemma first_truthy_js_or: "first_truthy (js_or a b # cs) = first_truthy (a # b # cs)"
  by (cases a; cases b) (auto simp: js_or_def)

lemma or_default_first: "or_default a [] = first_truthy [a]"
  by (cases a) (auto simp: or_default_def)

text \<open>
  Claim C4, amended. The \<^verbatim>\<open>customer_ip\<close> of a charge row is the first present and
  non-empty value among the keys \<^verbatim>\<open>customer_ip\<close>, \<^verbatim>\<open>ip_address\<close>, \<^verbatim>\<open>client_ip\<close> of the
  charge's own metadata and then of the metadata of its expanded payment intent, and
  the empty string when there is none; for a payment-intent row the keys are
  \<^verbatim>\<open>customer_ip\<close>, \<^verbatim>\<open>ip_address\<close>, \<^verbatim>\<open>client_ip\<close>, \<^verbatim>\<open>request_ip\<close> of its own metadata.
  The value is not checked to be an IP literal and no source reference is read. The
  expression is total: it does not throw.
\<close>

theorem C4_customer_ip_first_truthy:
  "detailedCharges_customer_ip charge =
     first_truthy
       [metadata_field charge ''customer_ip'',
        metadata_field charge ''ip_address'',
        metadata_field charge ''client_ip'',
        payment_intent_metadata_field charge ''customer_ip'',
        payment_intent_metadata_field charge ''ip_address'',
        payment_intent_metadata_field charge ''client_ip''] \<and>
   detailedPaymentIntents_customer_ip intent =
     first_truthy
       [metadata_field intent ''customer_ip'',
        metadata_field intent ''ip_address'',
        metadata_field intent ''client_ip'',
        metadata_field intent ''request_ip'']"
  by (simp only: detailedCharges_customer_ip_def detailedPaymentIntents_customer_ip_def
      or_default_first first_truthy_js_or)

text \<open>
  Claim C4 says that a candidate that is not a valid IP literal, such as
  \<^verbatim>\<open>not-an-ip\<close>, gives the empty string. The rows carry the value as it is.
\<close>

theorem C4_counterexample:
  "detailedCharges_customer_ip (sample_charge (Some [''customer_ip'' \<mapsto> ''not-an-ip'']) PI_null)
     = ''not-an-ip'' \<and>
   detailedPaymentIntents_customer_ip (sample_payment_intent (Some [''customer_ip'' \<mapsto> ''not-an-ip'']))
     = ''not-an-ip''"
  by (simp add: detailedCharges_customer_ip_def detailedPaymentIntents_customer_ip_def
      sample_charge_def sample_payment_intent_def metadata_field_def
      payment_intent_metadata_field_def js_or_def or_default_def)


theorem C4_customer_ip_first_truthy_witness:
  "detailedCharges_customer_ip
     (sample_charge (Some [''order'' \<mapsto> ''17''])
        (PI_object (sample_payment_intent (Some [''client_ip'' \<mapsto> ''203.0.113.5'']))))
     = ''203.0.113.5'' \<and>
   detailedCharges_customer_ip
     (sample_charge (Some [''order'' \<mapsto> ''17'']) (PI_id ''pi_1'')) = []"
proof -
  note inst = C4_customer_ip_first_truthy[THEN conjunct1]
  show ?thesis
    unfolding inst
    by (simp add: sample_charge_def sample_payment_intent_def metadata_field_def
        payment_intent_metadata_field_def)
qed

text \<open>
  The account list of a master user is never empty, whatever the route parameter: the
  guard \<^verbatim>\<open>accountIdList.length === 0\<close> of both handlers does not fire.
\<close>

lemma split_comma_nonempty: "split_comma s \<noteq> []"
  by (induction s) (auto split: list.splits)

lemma account_list_never_empty: "length (map trim (split_comma s)) \<noteq> 0"
  by (simp add: split_comma_nonempty)

lemma period_of_custom:
  "custom_period req \<Longrightarrow> (case query_period req of None \<Rightarrow> ''custom'' | Some p \<Rightarrow> p) = ''custom''"
  by (auto simp: custom_period_def)

lemma multi_route_missing:
  assumes "custom_period req" "missing_dates req"
  shows "multi_route m req =
         Respond 400 ''Bad Request'' ''start_date and end_date are required for custom period''"
proof (cases "query_start_date req")
  case None
  then show ?thesis
    by (simp add: multi_route_def period_of_custom[OF assms(1)])
next
  case s: (Some s)
  show ?thesis
  proof (cases "query_end_date req")
    case None
    with s show ?thesis
      by (simp add: multi_route_def period_of_custom[OF assms(1)])
  next
    case (Some e)
    with s assms(2) have "s = [] \<or> e = []" by (simp add: missing_dates_def)
    with s Some show ?thesis
      by (simp add: multi_route_def period_of_custom[OF assms(1)])
  qed
qed

lemma multi_route_dates:
  assumes "custom_period req" "query_start_date req = Some s" "query_end_date req = Some e"
    "s \<noteq> []" "e \<noteq> []"
  shows "multi_route m req =
     (case (moment_parse m s, moment_parse m e) of
        (Some startMoment, Some endMoment) \<Rightarrow>
          if startMoment > endMoment
          then Respond 400 ''Bad Request'' ''start_date cannot be after end_date''
          else
            (let accountIdList =
                   (if user_isMaster req
                    then map trim (split_comma (param_accountIds req))
                    else [user_stripeId req]) in
             if length accountIdList = 0
             then Respond 400 ''Bad Request'' ''At least one account ID is required''
             else Call_service accountIdList s e
                    (case query_timezone req of None \<Rightarrow> ''UTC'' | Some z \<Rightarrow> z))
      | _ \<Rightarrow> Respond 400 ''Bad Request'' ''Invalid date format. Use YYYY-MM-DD'')"
  using assms(2-5) by (simp add: multi_route_def period_of_custom[OF assms(1)])

lemma multi_route_unknown:
  assumes "unknown_period req"
  shows "multi_route m req =
         Respond 400 ''Bad Request'' ''Invalid period. Use: daily, weekly, monthly, or custom''"
proof -
  from assms obtain p where p: "query_period req = Some p"
    "p \<noteq> ''daily''" "p \<noteq> ''weekly''" "p \<noteq> ''monthly''" "p \<noteq> ''custom''"
    by (auto simp: unknown_period_def)
  then show ?thesis by (simp add: multi_route_def)
qed

lemma detailed_route_missing:
  assumes "custom_period req" "missing_dates req"
  shows "detailed_route m req =
         Respond 400 ''Bad Request'' ''start_date and end_date are required for custom period''"
proof (cases "query_start_date req")
  case None
  then show ?thesis
    by (simp add: detailed_route_def period_of_custom[OF assms(1)])
next
  case s: (Some s)
  show ?thesis
  proof (cases "query_end_date req")
    case None
    with s show ?thesis
      by (simp add: detailed_route_def period_of_custom[OF assms(1)])
  next
    case (Some e)
    with s assms(2) have "s = [] \<or> e = []" by (simp add: missing_dates_def)
    with s Some show ?thesis
      by (simp add: detailed_route_def period_of_custom[OF assms(1)])
  qed
qed

lemma detailed_route_dates:
  assumes "custom_period req" "query_start_date req = Some s" "query_end_date req = Some e"
    "s \<noteq> []" "e \<noteq> []"
  shows "detailed_route m req =
     (case (moment_parse m s, moment_parse m e) of
        (Some startMoment, Some endMoment) \<Rightarrow>
          if startMoment > endMoment
          then Respond 400 ''Bad Request'' ''start_date cannot be after end_date''
          else
            (let accountIdList =
                   (if user_isMaster req
                    then map trim (split_comma (param_accountIds req))
                    else [user_stripeId req]) in
             if length accountIdList = 0
             then Respond 400 ''Bad Request'' ''At least one account ID is required''
             else Call_service accountIdList s e
                    (case query_timezone req of None \<Rightarrow> ''UTC'' | Some z \<Rightarrow> z))
      | _ \<Rightarrow> Respond 400 ''Bad Request'' ''Invalid date format. Use YYYY-MM-DD'')"
  using assms(2-5) by (simp add: detailed_route_def period_of_custom[OF assms(1)])

lemma detailed_route_unknown:
  assumes "unknown_period req"
  shows "detailed_route m req =
         Respond 400 ''Bad Request'' ''Invalid period. Use: daily, weekly, monthly, or custom''"
proof -
  from assms obtain p where p: "query_period req = Some p"
    "p \<noteq> ''daily''" "p \<noteq> ''weekly''" "p \<noteq> ''monthly''" "p \<noteq> ''custom''"
    by (auto simp: unknown_period_def)
  then show ?thesis by (simp add: detailed_route_def)
qed

text \<open>
  Claim C9, amended. A request for the custom period (the default) that lacks a date,
  whose dates do not parse, or whose start is after its end, and a request for an unknown
  period, is answered 400 by both handlers before their first call of the service.
\<close>

theorem C9_validation_rejects:
  assumes "(custom_period req \<and>
              (missing_dates req \<or> unparseable_dates m req \<or> inverted_range m req)) \<or>
           unknown_period req"
  shows "(\<exists>msg. multi_route m req = Respond 400 ''Bad Request'' msg) \<and>
         (\<exists>msg. detailed_route m req = Respond 400 ''Bad Request'' msg)"
proof -
  consider (missing) "custom_period req" "missing_dates req"
    | (unparseable) "custom_period req" "\<not> missing_dates req" "unparseable_dates m req"
    | (inverted) "custom_period req" "\<not> missing_dates req" "inverted_range m req"
    | (unknown) "unknown_period req"
    using assms by blast
  then show ?thesis
  proof cases
    case missing
    then show ?thesis by (simp add: multi_route_missing detailed_route_missing)
  next
    case unparseable
    then obtain s e where d: "query_start_date req = Some s" "query_end_date req = Some e"
      and bad: "moment_parse m s = None \<or> moment_parse m e = None"
      by (auto simp: unparseable_dates_def)
    with unparseable(2) have ne: "s \<noteq> []" "e \<noteq> []" by (auto simp: missing_dates_def)
    from bad show ?thesis
      unfolding multi_route_dates[OF unparseable(1) d ne] detailed_route_dates[OF unparseable(1) d ne]
      by (auto split: option.splits)
  next
    case inverted
    then obtain s e a b where d: "query_start_date req = Some s" "query_end_date req = Some e"
      and bad: "moment_parse m s = Some a" "moment_parse m e = Some b" "a > b"
      by (auto simp: inverted_range_def)
    with inverted(2) have ne: "s \<noteq> []" "e \<noteq> []" by (auto simp: missing_dates_def)
    from bad show ?thesis
      unfolding multi_route_dates[OF inverted(1) d ne] detailed_route_dates[OF inverted(1) d ne]
      by simp
  next
    case unknown
    then show ?thesis by (simp add: multi_route_unknown detailed_route_unknown)
  qed
qed

text \<open>
  Claim C9 says that every request with missing dates is refused. A request for the
  period \<^verbatim>\<open>daily\<close> needs none: both handlers compute the dates and call the service.
\<close>

theorem C9_counterexample:
  "missing_dates (sample_request (Some ''daily'') None None) \<and>
   multi_route sample_moment (sample_request (Some ''daily'') None None)
     = Call_service [''acct_1'', ''acct_2''] ''2024-01-01'' ''2024-01-02'' ''UTC'' \<and>
   detailed_route sample_moment (sample_request (Some ''daily'') None None)
     = Call_service [''acct_1'', ''acct_2''] ''2024-01-01'' ''2024-01-02'' ''UTC''"
  by (simp add: missing_dates_def sample_request_def sample_moment_def multi_route_def
      detailed_route_def trim_def js_whitespace_def)

theorem C9_validation_rejects_witness:
  "custom_period (sample_request None None (Some ''2024-01-02'')) \<and>
   missing_dates (sample_request None None (Some ''2024-01-02'')) \<and>
   multi_route sample_moment (sample_request None None (Some ''2024-01-02''))
     = Respond 400 ''Bad Request'' ''start_date and end_date are required for custom period'' \<and>
   unparseable_dates sample_moment (sample_request None (Some ''next week'') (Some ''2024-01-02'')) \<and>
   detailed_route sample_moment (sample_request None (Some ''next week'') (Some ''2024-01-02''))
     = Respond 400 ''Bad Request'' ''Invalid date format. Use YYYY-MM-DD'' \<and>
   inverted_range sample_moment
     (sample_request (Some ''custom'') (Some ''2024-01-02'') (Some ''2024-01-01'')) \<and>
   multi_route sample_moment
     (sample_request (Some ''custom'') (Some ''2024-01-02'') (Some ''2024-01-01''))
     = Respond 400 ''Bad Request'' ''start_date cannot be after end_date'' \<and>
   unknown_period (sample_request (Some ''yearly'') (Some ''2024-01-01'') (Some ''2024-01-02'')) \<and>
   (\<exists>msg. detailed_route sample_moment
            (sample_request (Some ''yearly'') (Some ''2024-01-01'') (Some ''2024-01-02''))
          = Respond 400 ''Bad Request'' msg)"
proof -
  have c: "custom_period (sample_request None None (Some ''2024-01-02''))"
    by (simp add: custom_period_def sample_request_def)
  have m: "missing_dates (sample_request None None (Some ''2024-01-02''))"
    by (simp add: missing_dates_def sample_request_def)
  have m': "multi_route sample_moment (sample_request None None (Some ''2024-01-02''))
     = Respond 400 ''Bad Request'' ''start_date and end_date are required for custom period''"
    by (simp add: multi_route_def sample_request_def)
  have u: "unparseable_dates sample_moment (sample_request None (Some ''next week'') (Some ''2024-01-02''))"
    by (simp add: unparseable_dates_def sample_request_def sample_moment_def)
  have u': "detailed_route sample_moment (sample_request None (Some ''next week'') (Some ''2024-01-02''))
     = Respond 400 ''Bad Request'' ''Invalid date format. Use YYYY-MM-DD''"
    by (simp add: detailed_route_def sample_request_def sample_moment_def)
  have i: "inverted_range sample_moment
     (sample_request (Some ''custom'') (Some ''2024-01-02'') (Some ''2024-01-01''))"
    by (simp add: inverted_range_def sample_request_def sample_moment_def)
  have i': "multi_route sample_moment
     (sample_request (Some ''custom'') (Some ''2024-01-02'') (Some ''2024-01-01''))
     = Respond 400 ''Bad Request'' ''start_date cannot be after end_date''"
    by (simp add: multi_route_def sample_request_def sample_moment_def)
  have k: "unknown_period (sample_request (Some ''yearly'') (Some ''2024-01-01'') (Some ''2024-01-02''))"
    by (simp add: unknown_period_def sample_request_def)
  from C9_validation_rejects[of "sample_request (Some ''yearly'') (Some ''2024-01-01'') (Some ''2024-01-02'')"
      sample_moment] k
  have k': "\<exists>msg. detailed_route sample_moment
            (sample_request (Some ''yearly'') (Some ''2024-01-01'') (Some ''2024-01-02''))
          = Respond 400 ''Bad Request'' msg"
    by blast
  from c m m' u u' i i' k k' show ?thesis by blast
qed

end
